theory Spec2Isabelle
  imports Main
begin

section \<open>The streaming client of lisapy (lisa-sdk/lisapy/main.py)\<close>

text \<open>
  The development embeds the two streamed generation methods of class \<open>Lisa\<close>,
  \<open>generate_stream\<close> (lines 236-277) and \<open>agenerate_stream\<close> (lines 279-330), together
  with the Python built-ins their bodies call.  A generator is embedded by its trace: the
  list of frames it yields, in order, and the exception that ends it, if any.
\<close>

subsection \<open>Bytes and text\<close>

text \<open>
  A \<open>bytes\<close> object is a list of 8-bit characters.  A Python \<open>str\<close> is held as its UTF-8
  encoding, so that \<open>bytes.decode("utf-8")\<close> is the identity on well-formed input and raises
  on everything else.  The \<open>str\<close> operations used by the client (\<open>startswith\<close>,
  \<open>removeprefix\<close>, \<open>rstrip\<close> and \<open>in\<close>, all with ASCII arguments) act on the encoding
  exactly as they act on the code points, because an ASCII byte never occurs inside the
  encoding of another code point.
\<close>

type_synonym bytes = string
type_synonym str = string

definition in_range :: "char \<Rightarrow> nat \<Rightarrow> nat \<Rightarrow> bool" where
  "in_range c lo hi = (lo \<le> of_char c \<and> of_char c \<le> hi)"

definition second3 :: "char \<Rightarrow> char \<Rightarrow> bool" where
  \<comment> \<open>second byte of a three-byte sequence: no overlong form, no surrogate\<close>
  "second3 a b =
     (if in_range a 0xE0 0xE0 then in_range b 0xA0 0xBF
      else if in_range a 0xED 0xED then in_range b 0x80 0x9F
      else in_range b 0x80 0xBF)"

definition second4 :: "char \<Rightarrow> char \<Rightarrow> bool" where
  \<comment> \<open>second byte of a four-byte sequence: no overlong form, nothing above U+10FFFF\<close>
  "second4 a b =
     (if in_range a 0xF0 0xF0 then in_range b 0x90 0xBF
      else if in_range a 0xF1 0xF3 then in_range b 0x80 0xBF
      else if in_range a 0xF4 0xF4 then in_range b 0x80 0x8F
      else False)"

fun utf8_valid :: "bytes \<Rightarrow> bool" where
  "utf8_valid [] = True"
| "utf8_valid (a # bs) =
     (if in_range a 0x00 0x7F then utf8_valid bs
      else (case bs of [] \<Rightarrow> False | b # cs \<Rightarrow>
        if in_range a 0xC2 0xDF then in_range b 0x80 0xBF \<and> utf8_valid cs
        else (case cs of [] \<Rightarrow> False | c # ds \<Rightarrow>
          if in_range a 0xE0 0xEF
          then second3 a b \<and> in_range c 0x80 0xBF \<and> utf8_valid ds
          else (case ds of [] \<Rightarrow> False | d # es \<Rightarrow>
            second4 a b \<and> in_range c 0x80 0xBF \<and> in_range d 0x80 0xBF
              \<and> utf8_valid es))))"

subsection \<open>Exceptions and JSON values\<close>

text \<open>
  The exceptions the two methods can end with.  \<open>Mapped e\<close> is the exception object that
  \<open>parse_error\<close> of lisapy/errors.py returns; that module is not part of the sources at
  hand, so the mapper is a parameter of both methods and \<open>'e\<close> is the type of its results.
\<close>

datatype 'e error =
    UnicodeDecodeError
  | JSONDecodeError
  | KeyError str
  | TypeError
  | AttributeError str
  | ContentTypeError
  | Mapped 'e

text \<open>
  What \<open>json.loads\<close> returns: \<open>None\<close>, a bool, an int, a float (kept as its IEEE-754 bit
  pattern, a number below \<open>2 ^ 64\<close>), a str, a list, or a dict with str keys (an association
  list in insertion order).
\<close>

datatype json =
    JNull
  | JBool bool
  | JInt int
  | JFloat nat
  | JString str
  | JArray "json list"
  | JObject "(str \<times> json) list"

definition decode_utf8 :: "bytes \<Rightarrow> 'e error + str" where
  \<comment> \<open>\<open>resp_line.decode("utf-8")\<close>\<close>
  "decode_utf8 b = (if utf8_valid b then Inr b else Inl UnicodeDecodeError)"

definition bytes_eq_str :: "bytes \<Rightarrow> str \<Rightarrow> bool" where
  \<comment> \<open>\<open>==\<close> between a bytes object and a str: never equal in Python 3\<close>
  "bytes_eq_str b s = False"

definition startswith :: "str \<Rightarrow> str \<Rightarrow> bool" where
  "startswith s p = (take (length p) s = p)"

definition removeprefix :: "str \<Rightarrow> str \<Rightarrow> str" where
  "removeprefix s p = (if startswith s p then drop (length p) s else s)"

definition rstrip :: "str \<Rightarrow> str \<Rightarrow> str" where
  \<comment> \<open>\<open>s.rstrip(chars)\<close>: drop the trailing characters that occur in \<open>chars\<close>\<close>
  "rstrip s chars = rev (dropWhile (\<lambda>c. c \<in> set chars) (rev s))"

fun substring :: "str \<Rightarrow> str \<Rightarrow> bool" where
  "substring k [] = (k = [])"
| "substring k (c # cs) = (startswith (c # cs) k \<or> substring k cs)"

fun py_in :: "str \<Rightarrow> json \<Rightarrow> 'e error + bool" where
  \<comment> \<open>\<open>k in v\<close> for a str \<open>k\<close>: key of a dict, element of a list, substring of a str\<close>
  "py_in k (JObject kvs) = Inr (map_of kvs k \<noteq> None)"
| "py_in k (JArray vs) = Inr (JString k \<in> set vs)"
| "py_in k (JString s) = Inr (substring k s)"
| "py_in k v = Inl TypeError"

fun py_getitem :: "json \<Rightarrow> str \<Rightarrow> 'e error + json" where
  \<comment> \<open>\<open>v[k]\<close> for a str \<open>k\<close>: only a dict can be indexed by a str\<close>
  "py_getitem (JObject kvs) k =
     (case map_of kvs k of None \<Rightarrow> Inl (KeyError k) | Some v \<Rightarrow> Inr v)"
| "py_getitem v k = Inl TypeError"

subsection \<open>Frames\<close>

text \<open>
  Modelled from the spec: class \<open>StreamingResponse\<close> of lisapy/types.py, which is not part
  of the sources at hand.  A frame records the keyword arguments of the constructor call
  that built it, unchanged: \<open>token\<close> is always passed; \<open>finish_reason\<close> and
  \<open>generated_tokens\<close> are \<open>None\<close> when the call site passes none (the spec's TokenFrame,
  where both are absent) and hold the passed value otherwise (the spec's FinalFrame).
\<close>

record StreamingResponse =
  token :: json
  finish_reason :: "json option"
  generated_tokens :: "json option"

definition is_token_frame :: "StreamingResponse \<Rightarrow> bool" where
  "is_token_frame f = (finish_reason f = None \<and> generated_tokens f = None)"

definition is_final_frame :: "StreamingResponse \<Rightarrow> bool" where
  "is_final_frame f = (finish_reason f \<noteq> None \<and> generated_tokens f \<noteq> None)"

subsection \<open>The body of the two loops\<close>

definition json_text :: "str \<Rightarrow> str" where
  \<comment> \<open>the argument of \<open>json.loads\<close>, lines 265 and 320\<close>
  "json_text payload = rstrip (removeprefix payload ''data:'') ''/n''"

text \<open>
  \<open>json.loads\<close> is the parameter \<open>loads\<close>.  One pass through the body of the \<open>for\<close> loop
  raises (\<open>Inl\<close>), yields nothing (\<open>Inr None\<close>) or yields one frame.  The keyword arguments
  of a constructor call are evaluated from left to right.
\<close>

definition stream_line ::
  "(str \<Rightarrow> 'e error + json) \<Rightarrow> bytes \<Rightarrow> 'e error + StreamingResponse option" where
  \<comment> \<open>\<open>generate_stream\<close>, lines 261-275\<close>
  "stream_line loads resp_line =
     (if bytes_eq_str resp_line ''b\<newline>'' then Inr None
      else case decode_utf8 resp_line of Inl e \<Rightarrow> Inl e | Inr payload \<Rightarrow>
        if startswith payload ''data:'' then
          (case loads (json_text payload) of Inl e \<Rightarrow> Inl e | Inr json_payload \<Rightarrow>
            (case py_in ''finishReason'' json_payload of Inl e \<Rightarrow> Inl e
             | Inr True \<Rightarrow>
                (case py_getitem json_payload ''finishReason'' of Inl e \<Rightarrow> Inl e
                 | Inr fr \<Rightarrow>
                    (case py_getitem json_payload ''generatedTokens'' of Inl e \<Rightarrow> Inl e
                     | Inr gt \<Rightarrow>
                        Inr (Some \<lparr>token = JString '''', finish_reason = Some fr,
                                   generated_tokens = Some gt\<rparr>)))
             | Inr False \<Rightarrow>
                (case py_getitem json_payload ''token'' of Inl e \<Rightarrow> Inl e
                 | Inr tok \<Rightarrow>
                    (case py_getitem tok ''text'' of Inl e \<Rightarrow> Inl e
                     | Inr txt \<Rightarrow>
                        Inr (Some \<lparr>token = txt, finish_reason = None,
                                   generated_tokens = None\<rparr>)))))
        else Inr None)"

definition astream_line ::
  "(str \<Rightarrow> 'e error + json) \<Rightarrow> bytes \<Rightarrow> 'e error + StreamingResponse option" where
  \<comment> \<open>\<open>agenerate_stream\<close>, lines 316-330\<close>
  "astream_line loads resp_line =
     (if bytes_eq_str resp_line ''b\<newline>'' then Inr None
      else case decode_utf8 resp_line of Inl e \<Rightarrow> Inl e | Inr payload \<Rightarrow>
        if startswith payload ''data:'' then
          (case loads (json_text payload) of Inl e \<Rightarrow> Inl e | Inr json_payload \<Rightarrow>
            (case py_in ''finishReason'' json_payload of Inl e \<Rightarrow> Inl e
             | Inr True \<Rightarrow>
                (case py_getitem json_payload ''finishReason'' of Inl e \<Rightarrow> Inl e
                 | Inr fr \<Rightarrow>
                    (case py_getitem json_payload ''generatedTokens'' of Inl e \<Rightarrow> Inl e
                     | Inr gt \<Rightarrow>
                        Inr (Some \<lparr>token = JString '''', finish_reason = Some fr,
                                   generated_tokens = Some gt\<rparr>)))
             | Inr False \<Rightarrow>
                (case py_getitem json_payload ''token'' of Inl e \<Rightarrow> Inl e
                 | Inr tok \<Rightarrow>
                    (case py_getitem tok ''text'' of Inl e \<Rightarrow> Inl e
                     | Inr txt \<Rightarrow>
                        Inr (Some \<lparr>token = txt, finish_reason = None,
                                   generated_tokens = None\<rparr>)))))
        else Inr None)"

subsection \<open>The generators\<close>

text \<open>
  The trace of a generator: the frames yielded, in order, and the exception that ended the
  iteration (\<open>None\<close> when the generator returned).  A frame yielded before an exception is in
  the list: the caller received it before asking for the next one.
\<close>

type_synonym 'e trace = "StreamingResponse list \<times> 'e error option"

fun stream_loop :: "(str \<Rightarrow> 'e error + json) \<Rightarrow> bytes list \<Rightarrow> 'e trace" where
  \<comment> \<open>\<open>for resp_line in response.iter_lines()\<close>, line 260\<close>
  "stream_loop loads [] = ([], None)"
| "stream_loop loads (resp_line # rest) =
     (case stream_line loads resp_line of
        Inl e \<Rightarrow> ([], Some e)
      | Inr None \<Rightarrow> stream_loop loads rest
      | Inr (Some f) \<Rightarrow> (f # fst (stream_loop loads rest), snd (stream_loop loads rest)))"

fun astream_loop :: "(str \<Rightarrow> 'e error + json) \<Rightarrow> bytes list \<Rightarrow> 'e trace" where
  \<comment> \<open>\<open>async for resp_line in response.content\<close>, line 315\<close>
  "astream_loop loads [] = ([], None)"
| "astream_loop loads (resp_line # rest) =
     (case astream_line loads resp_line of
        Inl e \<Rightarrow> ([], Some e)
      | Inr None \<Rightarrow> astream_loop loads rest
      | Inr (Some f) \<Rightarrow> (f # fst (astream_loop loads rest), snd (astream_loop loads rest)))"

text \<open>
  The response of \<open>requests.Session.post\<close>: its status code and the lines that
  \<open>iter_lines()\<close> delivers.
\<close>

record response =
  status_code :: int
  iter_lines :: "bytes list"

definition generate_stream ::
  "(int \<Rightarrow> response \<Rightarrow> 'e) \<Rightarrow> (str \<Rightarrow> 'e error + json) \<Rightarrow> response \<Rightarrow> 'e trace" where
  \<comment> \<open>lines 258-277\<close>
  "generate_stream parse_error loads r =
     (if status_code r = 200 then stream_loop loads (iter_lines r)
      else ([], Some (Mapped (parse_error (status_code r) r))))"

text \<open>
  The response of \<open>aiohttp.ClientSession.post\<close>: the attribute \<open>status\<close>, the outcome of
  awaiting \<open>response.json()\<close>, and the lines that iterating \<open>response.content\<close> delivers.
  \<open>status_code_attr\<close> is what reading the attribute \<open>status_code\<close> gives: \<open>None\<close> when the
  object has no such attribute, which is the case of every \<open>aiohttp.ClientResponse\<close> (the
  class names the attribute \<open>status\<close>, as line 311 reads it).
\<close>

record 'e client_response =
  status :: int
  status_code_attr :: "int option"
  json_body :: "'e error + json"
  content :: "bytes list"

definition agenerate_stream ::
  "(int \<Rightarrow> 'e client_response \<Rightarrow> 'e) \<Rightarrow> (str \<Rightarrow> 'e error + json) \<Rightarrow>
     'e client_response \<Rightarrow> 'e trace" where
  \<comment> \<open>lines 310-330\<close>
  "agenerate_stream parse_error loads r =
     (if status r \<noteq> 200 then
        (case json_body r of
           Inl e \<Rightarrow> ([], Some e)
         | Inr payload \<Rightarrow>
            (case status_code_attr r of
               None \<Rightarrow> ([], Some (AttributeError ''status_code''))
             | Some c \<Rightarrow> ([], Some (Mapped (parse_error c r)))))
      else astream_loop loads (content r))"

subsection \<open>The shape of a yielded sequence\<close>

fun tokens_then_final :: "StreamingResponse list \<Rightarrow> bool" where
  \<comment> \<open>zero or more TokenFrames, then at most one FinalFrame, then nothing\<close>
  "tokens_then_final [] = True"
| "tokens_then_final [f] = (is_token_frame f \<or> is_final_frame f)"
| "tokens_then_final (f # g # fs) = (is_token_frame f \<and> tokens_then_final (g # fs))"

fun finish_is_last :: "(str \<Rightarrow> 'e error + json) \<Rightarrow> bytes list \<Rightarrow> bool" where
  \<comment> \<open>no line with the \<open>data:\<close> marker follows the line at which a FinalFrame is yielded\<close>
  "finish_is_last loads [] = True"
| "finish_is_last loads (l # ls) =
     (case stream_line loads l of
        Inl e \<Rightarrow> True
      | Inr None \<Rightarrow> finish_is_last loads ls
      | Inr (Some f) \<Rightarrow>
          if is_final_frame f then list_all (\<lambda>l'. \<not> startswith l' ''data:'') ls
          else finish_is_last loads ls)"

subsection \<open>Sample collaborators for the examples\<close>

text \<open>
  The theorems below hold for every parser and every error mapper.  The examples need one
  of each: \<open>sample_loads\<close> is \<open>json.loads\<close> on the four documents that the examples
  send (every other text used in an example is not JSON), and \<open>sample_parse_error\<close> maps
  a response to its status code.
\<close>

definition sample_loads :: "str \<Rightarrow> int error + json" where
  \<open>sample_loads s =
     (if s = ''{"token":{"text":"Hi"}}''
        then Inr (JObject [(''token'', JObject [(''text'', JString ''Hi'')])])
      else if s = ''{"token":{"text":"!"}}''
        then Inr (JObject [(''token'', JObject [(''text'', JString ''!'')])])
      else if s = ''{"finishReason":"stop","generatedTokens":2}''
        then Inr (JObject [(''finishReason'', JString ''stop''), (''generatedTokens'', JInt 2)])
      else if s = ''{"finishReason":"stop"}''
        then Inr (JObject [(''finishReason'', JString ''stop'')])
      else Inl JSONDecodeError)\<close>

definition sample_parse_error :: "int \<Rightarrow> 'r \<Rightarrow> int" where
  "sample_parse_error code r = code"

subsection \<open>The generators, step by step\<close>

text \<open>
  A caller may stop asking for frames at any time, so the generators are also embedded as
  the objects they are.  A generator object has been created and not started
  (\<open>Created\<close>, with the response that its POST will receive), is suspended at one of its
  \<open>yield\<close> statements (\<open>Suspended\<close>, with the lines not yet read), or has left its body by
  returning or raising (\<open>Finished\<close>).  One call of \<open>__next__\<close> or \<open>__anext__\<close> runs the
  body up to the next \<open>yield\<close> or to its end.
\<close>

datatype 'r gen = Created 'r | Suspended "bytes list" | Finished

datatype 'e step = Yield StreamingResponse | Raise "'e error" | Stop

fun resume ::
  "(bytes \<Rightarrow> 'e error + StreamingResponse option) \<Rightarrow> bytes list \<Rightarrow> 'e step \<times> 'r gen" where
  \<comment> \<open>the \<open>for\<close> loop, continued from the lines not yet read\<close>
  "resume body [] = (Stop, Finished)"
| "resume body (resp_line # rest) =
     (case body resp_line of
        Inl e \<Rightarrow> (Raise e, Finished)
      | Inr None \<Rightarrow> resume body rest
      | Inr (Some f) \<Rightarrow> (Yield f, Suspended rest))"

text \<open>
  The connection of the blocking path.  Line 258 calls \<open>self._session.post\<close> with the URL
  and \<open>json=request\<close> only.  Without \<open>stream=True\<close>, \<open>requests\<close> reads the whole body inside
  \<open>post\<close> and gives the connection back to the pool of the session before \<open>post\<close> returns;
  \<open>iter_lines()\<close> then reads the stored body.  With \<open>stream=True\<close> the response would keep
  the connection while its body is read.  \<open>session_post\<close> gives the response and whether
  the response still uses the connection when \<open>post\<close> has returned.  The session itself
  stays open for the next call of the client; \<open>__del__\<close> closes it (lines 396-401).
\<close>

definition session_post :: "bool \<Rightarrow> response \<Rightarrow> response \<times> bool" where
  "session_post stream r = (r, stream)"

text \<open>
  The state of the blocking generator is whether its call uses a connection, together with
  the position in the body.  Nothing in lines 259-277 touches the connection.
\<close>

fun generate_stream_next ::
  "(int \<Rightarrow> response \<Rightarrow> 'e) \<Rightarrow> (str \<Rightarrow> 'e error + json) \<Rightarrow> bool \<times> response gen \<Rightarrow>
     'e step \<times> bool \<times> response gen" where
  "generate_stream_next parse_error loads (in_use, Created r) =
     (case session_post False r of
        (response, in_use') \<Rightarrow>
          if status_code response = 200
          then (case resume (stream_line loads) (iter_lines response) of
                  (s, g) \<Rightarrow> (s, in_use', g))
          else (Raise (Mapped (parse_error (status_code response) response)), in_use',
                Finished))"
| "generate_stream_next parse_error loads (in_use, Suspended rest) =
     (case resume (stream_line loads) rest of (s, g) \<Rightarrow> (s, in_use, g))"
| "generate_stream_next parse_error loads (in_use, Finished) = (Stop, in_use, Finished)"

text \<open>
  The non-blocking generator opens its \<open>ClientSession\<close> and its response in two
  \<open>async with\<close> blocks (lines 305 and 310) that enclose the whole loop.  Returning or
  raising leaves both blocks, which releases the connection and closes the session.
\<close>

fun agenerate_stream_next ::
  "(int \<Rightarrow> 'e client_response \<Rightarrow> 'e) \<Rightarrow> (str \<Rightarrow> 'e error + json) \<Rightarrow>
     'e client_response gen \<Rightarrow> 'e step \<times> 'e client_response gen" where
  "agenerate_stream_next parse_error loads (Created r) =
     (if status r \<noteq> 200 then
        (case json_body r of
           Inl e \<Rightarrow> (Raise e, Finished)
         | Inr payload \<Rightarrow>
            (case status_code_attr r of
               None \<Rightarrow> (Raise (AttributeError ''status_code''), Finished)
             | Some c \<Rightarrow> (Raise (Mapped (parse_error c r)), Finished)))
      else resume (astream_line loads) (content r))"
| "agenerate_stream_next parse_error loads (Suspended rest) =
     resume (astream_line loads) rest"
| "agenerate_stream_next parse_error loads Finished = (Stop, Finished)"


text \<open>
  A caller that asks for at most \<open>n\<close> frames and then stops: the frames received, the event
  that ended the iteration if one did (\<open>None\<close> when the caller stopped by itself), and the
  generator that is left.
\<close>

fun take_frames ::
  "('g \<Rightarrow> 'e step \<times> 'g) \<Rightarrow> nat \<Rightarrow> 'g \<Rightarrow> StreamingResponse list \<times> 'e step option \<times> 'g" where
  "take_frames nxt 0 g = ([], None, g)"
| "take_frames nxt (Suc n) g =
     (case nxt g of
        (Yield f, g') \<Rightarrow>
          (case take_frames nxt n g' of (fs, ev, g'') \<Rightarrow> (f # fs, ev, g''))
      | (Raise e, g') \<Rightarrow> ([], Some (Raise e), g')
      | (Stop, g') \<Rightarrow> ([], Some Stop, g'))"

section \<open>Properties\<close>

subsection \<open>The loop body and the loops\<close>

lemmas sample_defs =
  stream_line_def astream_line_def bytes_eq_str_def decode_utf8_def in_range_def
  startswith_def removeprefix_def rstrip_def json_text_def sample_loads_def
  generate_stream_def agenerate_stream_def

lemma astream_line_eq: "astream_line loads l = stream_line loads l"
  by (simp add: astream_line_def stream_line_def)

lemma astream_loop_eq: "astream_loop loads ls = stream_loop loads ls"
  by (induction ls) (simp_all add: astream_line_eq split: sum.splits option.splits)

lemma decode_utf8_Inr: "(decode_utf8 l = Inr p) = (utf8_valid l \<and> p = l)"
  by (auto simp: decode_utf8_def)

lemma stream_line_filler:
  "\<not> startswith l ''data:'' \<Longrightarrow>
     stream_line loads l = (if utf8_valid l then Inr None else Inl UnicodeDecodeError)"
  by (simp add: stream_line_def bytes_eq_str_def decode_utf8_def)

lemma stream_line_undecodable:
  "\<not> utf8_valid l \<Longrightarrow> stream_line loads l = Inl UnicodeDecodeError"
  by (simp add: stream_line_def bytes_eq_str_def decode_utf8_def)

lemma stream_line_loads_error:
  "utf8_valid l \<Longrightarrow> startswith l ''data:'' \<Longrightarrow> loads (json_text l) = Inl e \<Longrightarrow>
     stream_line loads l = Inl e"
  by (simp add: stream_line_def bytes_eq_str_def decode_utf8_def)

lemma stream_line_data:
  "utf8_valid l \<Longrightarrow> startswith l ''data:'' \<Longrightarrow> loads (json_text l) = Inr v \<Longrightarrow>
     stream_line loads l =
       (case py_in ''finishReason'' v of Inl e \<Rightarrow> Inl e
        | Inr True \<Rightarrow>
           (case py_getitem v ''finishReason'' of Inl e \<Rightarrow> Inl e
            | Inr fr \<Rightarrow>
               (case py_getitem v ''generatedTokens'' of Inl e \<Rightarrow> Inl e
                | Inr gt \<Rightarrow>
                   Inr (Some \<lparr>token = JString '''', finish_reason = Some fr,
                              generated_tokens = Some gt\<rparr>)))
        | Inr False \<Rightarrow>
           (case py_getitem v ''token'' of Inl e \<Rightarrow> Inl e
            | Inr tok \<Rightarrow>
               (case py_getitem tok ''text'' of Inl e \<Rightarrow> Inl e
                | Inr txt \<Rightarrow>
                   Inr (Some \<lparr>token = txt, finish_reason = None,
                              generated_tokens = None\<rparr>))))"
  by (simp add: stream_line_def bytes_eq_str_def decode_utf8_def)

lemma stream_line_frame_kind:
  "stream_line loads l = Inr (Some f) \<Longrightarrow> is_token_frame f \<or> is_final_frame f"
  by (auto simp: stream_line_def is_token_frame_def is_final_frame_def
      split: if_splits sum.splits bool.splits)

text \<open>The loop over a concatenation: the second part runs only if the first did not raise.\<close>

lemma stream_loop_append:
  "stream_loop loads (xs @ ys) =
     (case snd (stream_loop loads xs) of
        None \<Rightarrow> (fst (stream_loop loads xs) @ fst (stream_loop loads ys),
                  snd (stream_loop loads ys))
      | Some e \<Rightarrow> stream_loop loads xs)"
  by (induction xs) (auto split: sum.splits option.splits)

lemma stream_loop_raise_at:
  assumes "snd (stream_loop loads pre) = None" and "stream_line loads line = Inl e"
  shows "stream_loop loads (pre @ line # post) = (fst (stream_loop loads pre), Some e)"
  using assms by (simp add: stream_loop_append)

lemma no_data_no_frames:
  "list_all (\<lambda>l. \<not> startswith l ''data:'') ls \<Longrightarrow> fst (stream_loop loads ls) = []"
  by (induction ls) (simp_all add: stream_line_filler)

lemma generate_stream_ok:
  "generate_stream pe loads \<lparr>status_code = 200, iter_lines = ls\<rparr> = stream_loop loads ls"
  by (simp add: generate_stream_def)

lemma agenerate_stream_ok:
  "agenerate_stream pe loads
     \<lparr>status = 200, status_code_attr = sc, json_body = jb, content = ls\<rparr>
   = stream_loop loads ls"
  by (simp add: agenerate_stream_def astream_loop_eq)

text \<open>
  Scenario A of the spec: two token events and the finish event give two TokenFrames and
  the FinalFrame, and the generator returns.
\<close>

lemma scenario_A:
  \<open>generate_stream sample_parse_error sample_loads
     \<lparr>status_code = 200,
      iter_lines = [''data:{"token":{"text":"Hi"}}'', ''data:{"token":{"text":"!"}}'',
                    ''data:{"finishReason":"stop","generatedTokens":2}'']\<rparr>
   = ([\<lparr>token = JString ''Hi'', finish_reason = None, generated_tokens = None\<rparr>,
       \<lparr>token = JString ''!'', finish_reason = None, generated_tokens = None\<rparr>,
       \<lparr>token = JString '''', finish_reason = Some (JString ''stop''),
        generated_tokens = Some (JInt 2)\<rparr>], None)\<close>
  by (simp add: sample_defs)

subsection \<open>The two copies of the loop body\<close>

text \<open>
  Claim C10.  On every response line the loop body of \<open>generate_stream\<close> and the loop body
  of \<open>agenerate_stream\<close> have the same outcome: the same frame, no frame, or the same
  exception.
\<close>

theorem line_logic_equal:
  "astream_line loads resp_line = stream_line loads resp_line"
  unfolding astream_line_def stream_line_def by (rule refl)

subsection \<open>Token events and finish events\<close>

text \<open>
  Claim C6.  A line with the \<open>data:\<close> marker whose JSON payload is token-shaped (an object
  without the key \<open>finishReason\<close> whose \<open>token\<close> is an object with a \<open>text\<close>) yields, on
  both paths, exactly one frame: its token is the payload's \<open>token.text\<close>, and neither
  \<open>finish_reason\<close> nor \<open>generated_tokens\<close> is set.
\<close>

theorem token_payload_frame:
  assumes "decode_utf8 line = Inr payload"
    and "startswith payload ''data:''"
    and "loads (json_text payload) = Inr (JObject kvs)"
    and "map_of kvs ''finishReason'' = None"
    and "map_of kvs ''token'' = Some (JObject tkvs)"
    and "map_of tkvs ''text'' = Some txt"
  shows "stream_line loads line =
           Inr (Some \<lparr>token = txt, finish_reason = None, generated_tokens = None\<rparr>)
       \<and> astream_line loads line =
           Inr (Some \<lparr>token = txt, finish_reason = None, generated_tokens = None\<rparr>)"
  using assms by (simp add: astream_line_eq decode_utf8_Inr stream_line_data)

theorem token_payload_frame_witness:
  \<open>decode_utf8 ''data:{"token":{"text":"Hi"}}'' = Inr ''data:{"token":{"text":"Hi"}}''
   \<and> startswith ''data:{"token":{"text":"Hi"}}'' ''data:''
   \<and> sample_loads (json_text ''data:{"token":{"text":"Hi"}}'')
       = Inr (JObject [(''token'', JObject [(''text'', JString ''Hi'')])])
   \<and> map_of [(''token'', JObject [(''text'', JString ''Hi'')])] ''finishReason'' = None
   \<and> map_of [(''token'', JObject [(''text'', JString ''Hi'')])] ''token''
       = Some (JObject [(''text'', JString ''Hi'')])
   \<and> map_of [(''text'', JString ''Hi'')] ''text'' = Some (JString ''Hi'')
   \<and> stream_line sample_loads ''data:{"token":{"text":"Hi"}}''
       = Inr (Some \<lparr>token = JString ''Hi'', finish_reason = None, generated_tokens = None\<rparr>)
   \<and> astream_line sample_loads ''data:{"token":{"text":"Hi"}}''
       = Inr (Some \<lparr>token = JString ''Hi'', finish_reason = None, generated_tokens = None\<rparr>)\<close>
proof -
  have h1: \<open>decode_utf8 ''data:{"token":{"text":"Hi"}}'' = Inr ''data:{"token":{"text":"Hi"}}''\<close>
    by (simp add: decode_utf8_def in_range_def)
  have h2: \<open>startswith ''data:{"token":{"text":"Hi"}}'' ''data:''\<close>
    by (simp add: startswith_def)
  have h3: \<open>sample_loads (json_text ''data:{"token":{"text":"Hi"}}'')
       = Inr (JObject [(''token'', JObject [(''text'', JString ''Hi'')])])\<close>
    by (simp add: sample_loads_def json_text_def rstrip_def removeprefix_def startswith_def)
  have h4: "map_of [(''token'', JObject [(''text'', JString ''Hi'')])] ''finishReason'' = None"
    by simp
  have h5: "map_of [(''token'', JObject [(''text'', JString ''Hi'')])] ''token''
       = Some (JObject [(''text'', JString ''Hi'')])"
    by simp
  have h6: "map_of [(''text'', JString ''Hi'')] ''text'' = Some (JString ''Hi'')"
    by simp
  show ?thesis
    using h1 h2 h3 h4 h5 h6
      token_payload_frame [where loads = sample_loads, OF h1 h2 h3 h4 h5 h6]
    by blast
qed

text \<open>
  Claim C7.  A line with the \<open>data:\<close> marker whose JSON payload is finish-shaped (an object
  with the keys \<open>finishReason\<close> and \<open>generatedTokens\<close>) yields, on both paths, exactly one
  frame: \<open>finish_reason\<close> and \<open>generated_tokens\<close> are the payload's two values, unchanged,
  and the token is the empty string.
\<close>

theorem finish_payload_frame:
  assumes "decode_utf8 line = Inr payload"
    and "startswith payload ''data:''"
    and "loads (json_text payload) = Inr (JObject kvs)"
    and "map_of kvs ''finishReason'' = Some fr"
    and "map_of kvs ''generatedTokens'' = Some gt"
  shows "stream_line loads line =
           Inr (Some \<lparr>token = JString '''', finish_reason = Some fr,
                      generated_tokens = Some gt\<rparr>)
       \<and> astream_line loads line =
           Inr (Some \<lparr>token = JString '''', finish_reason = Some fr,
                      generated_tokens = Some gt\<rparr>)"
  using assms by (simp add: astream_line_eq decode_utf8_Inr stream_line_data)

theorem finish_payload_frame_witness:
  \<open>decode_utf8 ''data:{"finishReason":"stop","generatedTokens":2}''
       = Inr ''data:{"finishReason":"stop","generatedTokens":2}''
   \<and> startswith ''data:{"finishReason":"stop","generatedTokens":2}'' ''data:''
   \<and> sample_loads (json_text ''data:{"finishReason":"stop","generatedTokens":2}'')
       = Inr (JObject [(''finishReason'', JString ''stop''), (''generatedTokens'', JInt 2)])
   \<and> map_of [(''finishReason'', JString ''stop''), (''generatedTokens'', JInt 2)]
         ''finishReason'' = Some (JString ''stop'')
   \<and> map_of [(''finishReason'', JString ''stop''), (''generatedTokens'', JInt 2)]
         ''generatedTokens'' = Some (JInt 2)
   \<and> stream_line sample_loads ''data:{"finishReason":"stop","generatedTokens":2}''
       = Inr (Some \<lparr>token = JString '''', finish_reason = Some (JString ''stop''),
                  generated_tokens = Some (JInt 2)\<rparr>)
   \<and> astream_line sample_loads ''data:{"finishReason":"stop","generatedTokens":2}''
       = Inr (Some \<lparr>token = JString '''', finish_reason = Some (JString ''stop''),
                  generated_tokens = Some (JInt 2)\<rparr>)\<close>
proof -
  have h1: \<open>decode_utf8 ''data:{"finishReason":"stop","generatedTokens":2}''
       = Inr ''data:{"finishReason":"stop","generatedTokens":2}''\<close>
    by (simp add: decode_utf8_def in_range_def)
  have h2: \<open>startswith ''data:{"finishReason":"stop","generatedTokens":2}'' ''data:''\<close>
    by (simp add: startswith_def)
  have h3: \<open>sample_loads (json_text ''data:{"finishReason":"stop","generatedTokens":2}'')
       = Inr (JObject [(''finishReason'', JString ''stop''), (''generatedTokens'', JInt 2)])\<close>
    by (simp add: sample_loads_def json_text_def rstrip_def removeprefix_def startswith_def)
  have h4: "map_of [(''finishReason'', JString ''stop''), (''generatedTokens'', JInt 2)]
         ''finishReason'' = Some (JString ''stop'')"
    by simp
  have h5: "map_of [(''finishReason'', JString ''stop''), (''generatedTokens'', JInt 2)]
         ''generatedTokens'' = Some (JInt 2)"
    by simp
  show ?thesis
    using h1 h2 h3 h4 h5
      finish_payload_frame [where loads = sample_loads, OF h1 h2 h3 h4 h5]
    by blast
qed

text \<open>
  Claim C9.  A line with the \<open>data:\<close> marker whose JSON payload is an object with the key
  \<open>finishReason\<close> and without the key \<open>generatedTokens\<close> yields no frame on either path:
  the unguarded lookup of \<open>generatedTokens\<close> raises \<open>KeyError\<close>.
\<close>

theorem finish_without_count_raises:
  assumes "decode_utf8 line = Inr payload"
    and "startswith payload ''data:''"
    and "loads (json_text payload) = Inr (JObject kvs)"
    and "map_of kvs ''finishReason'' = Some fr"
    and "map_of kvs ''generatedTokens'' = None"
  shows "stream_line loads line = Inl (KeyError ''generatedTokens'')
       \<and> astream_line loads line = Inl (KeyError ''generatedTokens'')"
  using assms by (simp add: astream_line_eq decode_utf8_Inr stream_line_data)

theorem finish_without_count_raises_witness:
  \<open>decode_utf8 ''data:{"finishReason":"stop"}'' = Inr ''data:{"finishReason":"stop"}''
   \<and> startswith ''data:{"finishReason":"stop"}'' ''data:''
   \<and> sample_loads (json_text ''data:{"finishReason":"stop"}'')
       = Inr (JObject [(''finishReason'', JString ''stop'')])
   \<and> map_of [(''finishReason'', JString ''stop'')] ''finishReason'' = Some (JString ''stop'')
   \<and> map_of [(''finishReason'', JString ''stop'')] ''generatedTokens'' = None
   \<and> stream_line sample_loads ''data:{"finishReason":"stop"}''
       = Inl (KeyError ''generatedTokens'')
   \<and> astream_line sample_loads ''data:{"finishReason":"stop"}''
       = Inl (KeyError ''generatedTokens'')\<close>
proof -
  have h1: \<open>decode_utf8 ''data:{"finishReason":"stop"}'' = Inr ''data:{"finishReason":"stop"}''\<close>
    by (simp add: decode_utf8_def in_range_def)
  have h2: \<open>startswith ''data:{"finishReason":"stop"}'' ''data:''\<close>
    by (simp add: startswith_def)
  have h3: \<open>sample_loads (json_text ''data:{"finishReason":"stop"}'')
       = Inr (JObject [(''finishReason'', JString ''stop'')])\<close>
    by (simp add: sample_loads_def json_text_def rstrip_def removeprefix_def startswith_def)
  have h4: "map_of [(''finishReason'', JString ''stop'')] ''finishReason''
       = Some (JString ''stop'')"
    by simp
  have h5: "map_of [(''finishReason'', JString ''stop'')] ''generatedTokens'' = None"
    by simp
  show ?thesis
    using h1 h2 h3 h4 h5
      finish_without_count_raises [where loads = sample_loads, OF h1 h2 h3 h4 h5]
    by blast
qed

subsection \<open>Filler lines\<close>

text \<open>
  Claim C5.  A response line that does not start with the \<open>data:\<close> marker yields no frame
  on either path.  If the line is text (well-formed UTF-8) it is skipped, and both generators
  behave as if the line had not been sent; the only other outcome is the
  \<open>UnicodeDecodeError\<close> of a line that cannot be decoded, which yields no frame either.
\<close>

theorem filler_line_no_frame:
  assumes "\<not> startswith line ''data:''"
  shows "stream_line loads line
           = (if utf8_valid line then Inr None else Inl UnicodeDecodeError)
       \<and> astream_line loads line
           = (if utf8_valid line then Inr None else Inl UnicodeDecodeError)
       \<and> (utf8_valid line \<longrightarrow>
            generate_stream pe loads \<lparr>status_code = 200, iter_lines = pre @ line # post\<rparr>
              = generate_stream pe loads \<lparr>status_code = 200, iter_lines = pre @ post\<rparr>
          \<and> agenerate_stream ape loads
              \<lparr>status = 200, status_code_attr = sc, json_body = jb,
               content = pre @ line # post\<rparr>
              = agenerate_stream ape loads
                  \<lparr>status = 200, status_code_attr = sc, json_body = jb,
                   content = pre @ post\<rparr>)"
proof -
  from assms have l: "stream_line loads line
      = (if utf8_valid line then Inr None else Inl UnicodeDecodeError)"
    by (rule stream_line_filler)
  have "stream_loop loads (pre @ line # post) = stream_loop loads (pre @ post)"
    if "utf8_valid line"
    using that l by (simp add: stream_loop_append split: option.splits)
  with l show ?thesis
    by (simp add: astream_line_eq generate_stream_ok agenerate_stream_ok)
qed

theorem filler_line_no_frame_witness:
  \<open>\<not> startswith '': keep-alive'' ''data:''
   \<and> utf8_valid '': keep-alive''
   \<and> stream_line sample_loads '': keep-alive'' = Inr None
   \<and> astream_line sample_loads '': keep-alive'' = Inr None
   \<and> generate_stream sample_parse_error sample_loads
        \<lparr>status_code = 200,
         iter_lines = [''data:{"token":{"text":"Hi"}}''] @ '': keep-alive''
                        # [''data:{"finishReason":"stop","generatedTokens":2}'']\<rparr>
      = generate_stream sample_parse_error sample_loads
          \<lparr>status_code = 200,
           iter_lines = [''data:{"token":{"text":"Hi"}}'']
                          @ [''data:{"finishReason":"stop","generatedTokens":2}'']\<rparr>
   \<and> agenerate_stream sample_parse_error sample_loads
        \<lparr>status = 200, status_code_attr = None, json_body = Inr JNull,
         content = [''data:{"token":{"text":"Hi"}}''] @ '': keep-alive''
                     # [''data:{"finishReason":"stop","generatedTokens":2}'']\<rparr>
      = agenerate_stream sample_parse_error sample_loads
          \<lparr>status = 200, status_code_attr = None, json_body = Inr JNull,
           content = [''data:{"token":{"text":"Hi"}}'']
                       @ [''data:{"finishReason":"stop","generatedTokens":2}'']\<rparr>\<close>
proof -
  have h1: "\<not> startswith '': keep-alive'' ''data:''"
    by (simp add: startswith_def)
  have h2: "utf8_valid '': keep-alive''"
    by (simp add: in_range_def)
  show ?thesis
    using h1 h2
      filler_line_no_frame [where loads = sample_loads and pe = sample_parse_error
        and ape = sample_parse_error and sc = None and jb = "Inr JNull"
        and pre = \<open>[''data:{"token":{"text":"Hi"}}'']\<close>
        and post = \<open>[''data:{"finishReason":"stop","generatedTokens":2}'']\<close>, OF h1]
    by (simp only: if_True simp_thms)
qed

subsection \<open>Decode failures\<close>

text \<open>
  What both generators raise at a \<open>data:\<close> line: the error of the parser on the text that
  lines 265 and 320 hand to it, which is the line without its marker and without its
  trailing slashes and letters n.  None of the later lines is consumed, and the frames
  yielded for the earlier lines are exactly the frames already delivered.
\<close>

lemma decode_error_raised:
  assumes "decode_utf8 line = Inr payload"
    and "startswith payload ''data:''"
    and "loads (json_text payload) = Inl e"
    and "generate_stream pe loads \<lparr>status_code = 200, iter_lines = pre\<rparr> = (fs, None)"
  shows "generate_stream pe loads \<lparr>status_code = 200, iter_lines = pre @ line # post\<rparr>
           = (fs, Some e)
       \<and> agenerate_stream ape loads
            \<lparr>status = 200, status_code_attr = sc, json_body = jb,
             content = pre @ line # post\<rparr>
           = (fs, Some e)"
proof -
  from assms(1-3) have "stream_line loads line = Inl e"
    by (simp add: decode_utf8_Inr stream_line_loads_error)
  moreover from assms(4) have "stream_loop loads pre = (fs, None)"
    by (simp add: generate_stream_ok)
  ultimately have "stream_loop loads (pre @ line # post) = (fs, Some e)"
    by (simp add: stream_loop_raise_at)
  then show ?thesis
    by (simp add: generate_stream_ok agenerate_stream_ok)
qed

text \<open>Scenario C of the spec: the line \<open>data:{bad json\<close> after one token event.\<close>

lemma scenario_C:
  \<open>generate_stream sample_parse_error sample_loads
        \<lparr>status_code = 200,
         iter_lines = [''data:{"token":{"text":"Hi"}}'', ''data:{bad json'',
                       ''data:{"token":{"text":"!"}}'']\<rparr>
      = ([\<lparr>token = JString ''Hi'', finish_reason = None, generated_tokens = None\<rparr>],
         Some JSONDecodeError)
   \<and> agenerate_stream sample_parse_error sample_loads
        \<lparr>status = 200, status_code_attr = None, json_body = Inr JNull,
         content = [''data:{"token":{"text":"Hi"}}'', ''data:{bad json'',
                    ''data:{"token":{"text":"!"}}'']\<rparr>
      = ([\<lparr>token = JString ''Hi'', finish_reason = None, generated_tokens = None\<rparr>],
         Some JSONDecodeError)\<close>
  by (simp add: sample_defs)

lemma rstrip_slash_n:
  assumes "s \<noteq> []" and "last s \<noteq> CHR ''/''" and "last s \<noteq> CHR ''n''"
  shows "json_text (''data:'' @ s @ ''/n'') = s"
proof -
  from assms(1) obtain xs x where "s = xs @ [x]"
    by (cases s rule: rev_cases) auto
  with assms(2,3) show ?thesis
    by (simp add: json_text_def removeprefix_def startswith_def rstrip_def)
qed

text \<open>
  Claim C4.  The claim is about the remainder of the line: what follows the marker.  The
  code hands the parser the text of \<open>rstrip("/n")\<close> instead, so a remainder that is a JSON
  document followed by \<open>/n\<close> is not valid JSON, and yet no decode error is raised at that
  line: the document is parsed and its frame is yielded, by both generators.
\<close>

theorem decode_error_missed:
  assumes "utf8_valid (''data:'' @ s @ ''/n'')"
    and "s \<noteq> []" and "last s \<noteq> CHR ''/''" and "last s \<noteq> CHR ''n''"
    and "loads (s @ ''/n'') = Inl e"
    and "loads s = Inr (JObject kvs)"
    and "map_of kvs ''finishReason'' = None"
    and "map_of kvs ''token'' = Some (JObject tkvs)"
    and "map_of tkvs ''text'' = Some txt"
  shows "generate_stream pe loads
           \<lparr>status_code = 200, iter_lines = [''data:'' @ s @ ''/n'']\<rparr>
           = ([\<lparr>token = txt, finish_reason = None, generated_tokens = None\<rparr>], None)
       \<and> agenerate_stream ape loads
            \<lparr>status = 200, status_code_attr = sc, json_body = jb,
             content = [''data:'' @ s @ ''/n'']\<rparr>
           = ([\<lparr>token = txt, finish_reason = None, generated_tokens = None\<rparr>], None)"
proof -
  from assms(2-4) have "json_text (''data:'' @ s @ ''/n'') = s"
    by (rule rstrip_slash_n)
  with assms(6) have parsed: "loads (json_text (''data:'' @ s @ ''/n'')) = Inr (JObject kvs)"
    by (simp only:)
  have marker: "startswith (''data:'' @ s @ ''/n'') ''data:''"
    by (simp add: startswith_def)
  from stream_line_data [where loads = loads, OF assms(1) marker parsed] assms(7-9)
  have "stream_line loads (''data:'' @ s @ ''/n'')
      = Inr (Some \<lparr>token = txt, finish_reason = None, generated_tokens = None\<rparr>)"
    by simp
  then have "stream_loop loads [''data:'' @ s @ ''/n'']
      = ([\<lparr>token = txt, finish_reason = None, generated_tokens = None\<rparr>], None)"
    by simp
  then show ?thesis
    by (simp only: generate_stream_ok agenerate_stream_ok simp_thms)
qed

theorem decode_error_missed_witness:
  \<open>utf8_valid (''data:'' @ ''{"token":{"text":"Hi"}}'' @ ''/n'')
   \<and> sample_loads (''{"token":{"text":"Hi"}}'' @ ''/n'') = Inl JSONDecodeError
   \<and> sample_loads ''{"token":{"text":"Hi"}}''
       = Inr (JObject [(''token'', JObject [(''text'', JString ''Hi'')])])
   \<and> generate_stream sample_parse_error sample_loads
        \<lparr>status_code = 200, iter_lines = [''data:'' @ ''{"token":{"text":"Hi"}}'' @ ''/n'']\<rparr>
      = ([\<lparr>token = JString ''Hi'', finish_reason = None, generated_tokens = None\<rparr>], None)
   \<and> agenerate_stream sample_parse_error sample_loads
        \<lparr>status = 200, status_code_attr = None, json_body = Inr JNull,
         content = [''data:'' @ ''{"token":{"text":"Hi"}}'' @ ''/n'']\<rparr>
      = ([\<lparr>token = JString ''Hi'', finish_reason = None, generated_tokens = None\<rparr>], None)\<close>
proof -
  have h1: \<open>utf8_valid (''data:'' @ ''{"token":{"text":"Hi"}}'' @ ''/n'')\<close>
    by (simp add: in_range_def)
  have h2: \<open>''{"token":{"text":"Hi"}}'' \<noteq> []\<close>
    by simp
  have h3: \<open>last ''{"token":{"text":"Hi"}}'' \<noteq> CHR ''/''\<close>
    by simp
  have h4: \<open>last ''{"token":{"text":"Hi"}}'' \<noteq> CHR ''n''\<close>
    by simp
  have h5: \<open>sample_loads (''{"token":{"text":"Hi"}}'' @ ''/n'') = Inl JSONDecodeError\<close>
    by (simp add: sample_loads_def)
  have h6: \<open>sample_loads ''{"token":{"text":"Hi"}}''
       = Inr (JObject [(''token'', JObject [(''text'', JString ''Hi'')])])\<close>
    by (simp add: sample_loads_def)
  have h7: "map_of [(''token'', JObject [(''text'', JString ''Hi'')])] ''finishReason'' = None"
    by simp
  have h8: "map_of [(''token'', JObject [(''text'', JString ''Hi'')])] ''token''
       = Some (JObject [(''text'', JString ''Hi'')])"
    by simp
  have h9: "map_of [(''text'', JString ''Hi'')] ''text'' = Some (JString ''Hi'')"
    by simp
  show ?thesis
    using h1 h5 h6
      decode_error_missed [where loads = sample_loads and pe = sample_parse_error
        and ape = sample_parse_error and sc = None and jb = "Inr JNull",
        OF h1 h2 h3 h4 h5 h6 h7 h8 h9]
    by blast
qed

subsection \<open>The shape of the yielded sequence\<close>

lemma tokens_then_final_Cons:
  "is_token_frame f \<Longrightarrow> tokens_then_final fs \<Longrightarrow> tokens_then_final (f # fs)"
  by (cases fs) simp_all

lemma stream_loop_shape:
  "finish_is_last loads ls \<Longrightarrow> tokens_then_final (fst (stream_loop loads ls))"
proof (induction ls)
  case Nil
  show ?case by simp
next
  case (Cons l ls)
  show ?case
  proof (cases "stream_line loads l")
    case (Inl e)
    then show ?thesis by simp
  next
    case (Inr r)
    show ?thesis
    proof (cases r)
      case None
      with Inr Cons show ?thesis by simp
    next
      case (Some f)
      show ?thesis
      proof (cases "is_final_frame f")
        case True
        with Inr Some Cons.prems have "fst (stream_loop loads ls) = []"
          by (simp add: no_data_no_frames)
        with Inr Some True show ?thesis by simp
      next
        case False
        with Inr Some have "is_token_frame f"
          using stream_line_frame_kind by blast
        moreover from False Inr Some Cons have "tokens_then_final (fst (stream_loop loads ls))"
          by simp
        ultimately show ?thesis
          using Inr Some by (simp add: tokens_then_final_Cons)
      qed
    qed
  qed
qed

text \<open>
  Claim C1, as stated, fails: neither loop leaves after yielding a FinalFrame, so a
  \<open>data:\<close> line that the server sends after its finish event still yields a frame.
\<close>

theorem frame_after_final_frame:
  \<open>generate_stream sample_parse_error sample_loads
      \<lparr>status_code = 200,
       iter_lines = [''data:{"finishReason":"stop","generatedTokens":2}'',
                     ''data:{"token":{"text":"Hi"}}'']\<rparr>
    = ([\<lparr>token = JString '''', finish_reason = Some (JString ''stop''),
         generated_tokens = Some (JInt 2)\<rparr>,
        \<lparr>token = JString ''Hi'', finish_reason = None, generated_tokens = None\<rparr>], None)
   \<and> \<not> tokens_then_final (fst (generate_stream sample_parse_error sample_loads
      \<lparr>status_code = 200,
       iter_lines = [''data:{"finishReason":"stop","generatedTokens":2}'',
                     ''data:{"token":{"text":"Hi"}}'']\<rparr>))
   \<and> \<not> tokens_then_final (fst (agenerate_stream sample_parse_error sample_loads
      \<lparr>status = 200, status_code_attr = None, json_body = Inr JNull,
       content = [''data:{"finishReason":"stop","generatedTokens":2}'',
                  ''data:{"token":{"text":"Hi"}}'']\<rparr>))\<close>
  by (simp add: sample_defs is_token_frame_def is_final_frame_def)

text \<open>
  Claim C1, amended.  For every call of either generator and every sequence of server
  lines in which no line with the \<open>data:\<close> marker follows the line at which a FinalFrame
  is yielded, the yielded sequence is zero or more TokenFrames followed by at most one
  FinalFrame, and nothing follows a FinalFrame.
\<close>

theorem frames_shape:
  assumes "finish_is_last loads (iter_lines r)"
    and "finish_is_last loads (content ar)"
  shows "tokens_then_final (fst (generate_stream pe loads r))
       \<and> tokens_then_final (fst (agenerate_stream ape loads ar))"
  using assms
  by (simp add: generate_stream_def agenerate_stream_def astream_loop_eq stream_loop_shape
      split: sum.splits option.splits)

theorem frames_shape_witness:
  \<open>finish_is_last sample_loads
      [''data:{"token":{"text":"Hi"}}'', '': keep-alive'', ''data:{"token":{"text":"!"}}'',
       ''data:{"finishReason":"stop","generatedTokens":2}'', '': keep-alive'']
   \<and> tokens_then_final (fst (generate_stream sample_parse_error sample_loads
        \<lparr>status_code = 200,
         iter_lines =
           [''data:{"token":{"text":"Hi"}}'', '': keep-alive'', ''data:{"token":{"text":"!"}}'',
            ''data:{"finishReason":"stop","generatedTokens":2}'', '': keep-alive'']\<rparr>))
   \<and> tokens_then_final (fst (agenerate_stream sample_parse_error sample_loads
        \<lparr>status = 200, status_code_attr = None, json_body = Inr JNull,
         content =
           [''data:{"token":{"text":"Hi"}}'', '': keep-alive'', ''data:{"token":{"text":"!"}}'',
            ''data:{"finishReason":"stop","generatedTokens":2}'', '': keep-alive'']\<rparr>))\<close>
proof -
  have h: \<open>finish_is_last sample_loads
      [''data:{"token":{"text":"Hi"}}'', '': keep-alive'', ''data:{"token":{"text":"!"}}'',
       ''data:{"finishReason":"stop","generatedTokens":2}'', '': keep-alive'']\<close>
    by (simp add: sample_defs is_final_frame_def)
  show ?thesis
    using h
      frames_shape [where loads = sample_loads and pe = sample_parse_error
        and ape = sample_parse_error
        and r = \<open>\<lparr>status_code = 200,
         iter_lines =
           [''data:{"token":{"text":"Hi"}}'', '': keep-alive'', ''data:{"token":{"text":"!"}}'',
            ''data:{"finishReason":"stop","generatedTokens":2}'', '': keep-alive'']\<rparr>\<close>
        and ar = \<open>\<lparr>status = 200, status_code_attr = None, json_body = Inr JNull,
         content =
           [''data:{"token":{"text":"Hi"}}'', '': keep-alive'', ''data:{"token":{"text":"!"}}'',
            ''data:{"finishReason":"stop","generatedTokens":2}'', '': keep-alive'']\<rparr>\<close>]
    by (simp only: response.simps client_response.simps simp_thms)
qed

subsection \<open>The text handed to the JSON parser\<close>

lemma startswith_length: "startswith s p \<Longrightarrow> length p \<le> length s"
  unfolding startswith_def by (metis length_take min.cobounded1)

lemma json_text_data:
  "startswith payload ''data:'' \<Longrightarrow>
     json_text payload
       = rev (dropWhile (\<lambda>c. c = CHR ''/'' \<or> c = CHR ''n'')
               (rev (drop (length ''data:'') payload)))"
  by (simp add: json_text_def removeprefix_def rstrip_def)

text \<open>A trailing newline is never removed, whatever precedes it.\<close>

lemma json_text_keeps_newline:
  assumes "startswith payload ''data:''"
  shows "json_text (payload @ ''\<newline>'') = drop (length ''data:'') payload @ ''\<newline>''"
proof -
  from assms have len: "length ''data:'' \<le> length payload"
    by (rule startswith_length)
  with assms have "startswith (payload @ ''\<newline>'') ''data:''"
    by (simp add: startswith_def)
  with len show ?thesis
    by (simp add: json_text_def removeprefix_def rstrip_def)
qed

text \<open>
  Claim C2.  The claim says that the marker and the trailing newline characters are removed
  and that exactly the rest is parsed.  The code calls \<open>rstrip("/n")\<close>, which removes trailing
  slashes and letters n: a trailing newline stays in the text handed to the parser, and a
  line that ends in \<open>/n\<close> after a JSON document is parsed without these two characters and
  yields a frame.
\<close>

theorem rstrip_slash_n_not_newline:
  \<open>json_text ''data:{"token":{"text":"Hi"}}\<newline>'' = ''{"token":{"text":"Hi"}}\<newline>''
   \<and> json_text ''data:{"token":{"text":"Hi"}}/n'' = ''{"token":{"text":"Hi"}}''
   \<and> stream_line sample_loads ''data:{"token":{"text":"Hi"}}/n''
       = Inr (Some \<lparr>token = JString ''Hi'', finish_reason = None, generated_tokens = None\<rparr>)
   \<and> astream_line sample_loads ''data:{"token":{"text":"Hi"}}/n''
       = Inr (Some \<lparr>token = JString ''Hi'', finish_reason = None, generated_tokens = None\<rparr>)\<close>
  by (simp add: sample_defs)

subsection \<open>Responses with a status other than 200\<close>

text \<open>
  On the blocking path a status other than 200 raises the mapper's result at once, and no
  line is decoded.
\<close>

lemma generate_stream_not_200:
  "status_code r \<noteq> 200 \<Longrightarrow>
     generate_stream pe loads r = ([], Some (Mapped (pe (status_code r) r)))"
  by (simp add: generate_stream_def)

text \<open>
  On the non-blocking path no line is decoded either, but the body is awaited first, and
  the mapper is called only if the response object has an attribute \<open>status_code\<close>.
\<close>

lemma agenerate_stream_not_200:
  "status r \<noteq> 200 \<Longrightarrow>
     agenerate_stream pe loads r =
       ([], Some (case json_body r of
                    Inl e \<Rightarrow> e
                  | Inr payload \<Rightarrow>
                      (case status_code_attr r of
                         None \<Rightarrow> AttributeError ''status_code''
                       | Some c \<Rightarrow> Mapped (pe c r))))"
  by (simp add: agenerate_stream_def split: sum.splits option.splits)

text \<open>
  Claim C3.  The claim says that on a status other than 200 both generators call the Error
  Mapper and raise its result at once, without yielding a frame.  \<open>generate_stream\<close> does.
  \<open>agenerate_stream\<close> yields no frame but does not reach the mapper: for a 404 response of
  aiohttp it raises \<open>AttributeError\<close> when the body is JSON, and the error of
  \<open>response.json()\<close> when it is not.
\<close>

theorem async_status_failure_unmapped:
  "agenerate_stream sample_parse_error sample_loads
      \<lparr>status = 404, status_code_attr = None,
       json_body = Inr (JObject [(''detail'', JString ''Not Found'')]), content = []\<rparr>
     = ([], Some (AttributeError ''status_code''))
   \<and> agenerate_stream sample_parse_error sample_loads
      \<lparr>status = 404, status_code_attr = None,
       json_body = Inl ContentTypeError, content = []\<rparr>
     = ([], Some ContentTypeError)
   \<and> generate_stream sample_parse_error sample_loads
      \<lparr>status_code = 404, iter_lines = []\<rparr>
     = ([], Some (Mapped 404))"
  by (simp add: generate_stream_def agenerate_stream_def sample_parse_error_def)


subsection \<open>The connection when the iteration stops\<close>









text \<open>The frames a caller receives step by step are the first frames of the trace.\<close>

lemma resume_Yield:
  "resume (stream_line loads) ls = (Yield f, g) \<Longrightarrow>
     \<exists>rest. g = Suspended rest
       \<and> stream_loop loads ls = (f # fst (stream_loop loads rest), snd (stream_loop loads rest))"
  by (induction ls) (auto split: sum.splits option.splits)

lemma resume_Raise:
  "resume (stream_line loads) ls = (Raise e, g) \<Longrightarrow> stream_loop loads ls = ([], Some e)"
  by (induction ls) (auto split: sum.splits option.splits)

lemma resume_Stop:
  "resume (stream_line loads) ls = (Stop, g) \<Longrightarrow> stream_loop loads ls = ([], None)"
  by (induction ls) (auto split: sum.splits option.splits)

lemma astream_line_fun: "astream_line loads = stream_line loads"
  by (rule ext) (rule astream_line_eq)

lemma take_frames_loop:
  "fst (take_frames (agenerate_stream_next pe loads) n (Suspended ls))
     = take n (fst (stream_loop loads ls))"
proof (induction n arbitrary: ls)
  case 0
  show ?case by simp
next
  case (Suc n)
  obtain s g where sg: "resume (stream_line loads) ls = (s, g :: 'a client_response gen)"
    by (cases "resume (stream_line loads) ls :: 'a step \<times> 'a client_response gen")
  show ?case
  proof (cases s)
    case (Yield f)
    with sg obtain rest where "g = Suspended rest"
      and "stream_loop loads ls = (f # fst (stream_loop loads rest), snd (stream_loop loads rest))"
      using resume_Yield by blast
    with sg Yield Suc.IH [of rest] show ?thesis
      by (auto simp add: astream_line_fun split: prod.splits)
  next
    case (Raise e)
    with sg show ?thesis
      by (simp add: astream_line_fun resume_Raise)
  next
    case Stop
    with sg show ?thesis
      by (simp add: astream_line_fun resume_Stop)
  qed
qed

lemma take_frames_trace:
  "fst (take_frames (agenerate_stream_next pe loads) n (Created r))
     = take n (fst (agenerate_stream pe loads r))"
proof (cases n)
  case 0
  then show ?thesis by simp
next
  case (Suc k)
  show ?thesis
  proof (cases "status r = 200")
    case False
    with Suc show ?thesis
      by (simp add: agenerate_stream_def split: sum.splits option.splits)
  next
    case True
    have "take_frames (agenerate_stream_next pe loads) (Suc k) (Created r)
        = take_frames (agenerate_stream_next pe loads) (Suc k) (Suspended (content r))"
      using True by simp
    with Suc True show ?thesis
      by (simp only: take_frames_loop agenerate_stream_def astream_loop_eq) simp
  qed
qed

lemma take_frames_loop_blocking:
  "fst (take_frames (generate_stream_next pe loads) n (in_use, Suspended ls))
     = take n (fst (stream_loop loads ls))"
proof (induction n arbitrary: ls)
  case 0
  show ?case by simp
next
  case (Suc n)
  obtain s g where sg: "resume (stream_line loads) ls = (s, g :: response gen)"
    by (cases "resume (stream_line loads) ls :: 'a step \<times> response gen")
  show ?case
  proof (cases s)
    case (Yield f)
    with sg obtain rest where "g = Suspended rest"
      and "stream_loop loads ls = (f # fst (stream_loop loads rest), snd (stream_loop loads rest))"
      using resume_Yield by blast
    with sg Yield Suc.IH [of rest] show ?thesis
      by (auto split: prod.splits)
  next
    case (Raise e)
    with sg show ?thesis
      by (simp add: resume_Raise)
  next
    case Stop
    with sg show ?thesis
      by (simp add: resume_Stop)
  qed
qed

lemma take_frames_trace_blocking:
  "fst (take_frames (generate_stream_next pe loads) n (in_use, Created r))
     = take n (fst (generate_stream pe loads r))"
proof (cases n)
  case 0
  then show ?thesis by simp
next
  case (Suc k)
  show ?thesis
  proof (cases "status_code r = 200")
    case False
    with Suc show ?thesis
      by (simp add: generate_stream_def session_post_def)
  next
    case True
    have "take_frames (generate_stream_next pe loads) (Suc k) (in_use, Created r)
        = take_frames (generate_stream_next pe loads) (Suc k) (False, Suspended (iter_lines r))"
      using True by (simp add: session_post_def)
    with Suc True show ?thesis
      by (simp only: take_frames_loop_blocking generate_stream_def) simp
  qed
qed




end
